theory Spec2Isabelle
  imports Main
begin

section \<open>The markdown viewer component\<close>

text \<open>
  \<^verbatim>\<open>src/app/markdown-viewer/markdown-viewer.component.ts\<close> declares a class with three
  signals,
  \<^verbatim>\<open>filePath = signal<string>('')\<close>, \<^verbatim>\<open>loading = signal(true)\<close> and
  \<^verbatim>\<open>error = signal('')\<close>, a subscription to the route parameters made in the constructor,
  and the two callbacks \<^verbatim>\<open>onLoad\<close> and \<^verbatim>\<open>onError\<close>.

  The class is a record of its signals. The handlers also call two browser globals,
  \<^verbatim>\<open>console.log\<close> and \<^verbatim>\<open>window.scrollTo\<close>; these calls do not touch the signals and
  are kept as a trace, in the order in which they are made.
\<close>

datatype effect =
  ConsoleLog string
| ScrollTo nat string

record MarkdownViewerComponent =
  filePath :: string
  loading :: bool
  error :: string
  effects :: "effect list"

text \<open>The field initialisers: the component before any subscription callback has run.\<close>

definition initial :: MarkdownViewerComponent where
  "initial = \<lparr>filePath = '''', loading = True, error = '''', effects = []\<rparr>"

text \<open>
  The route parameters are an object indexed by strings. \<^verbatim>\<open>'./' + params['title']\<close> is a
  string concatenation: a key that is absent reads as \<^verbatim>\<open>undefined\<close>, which the
  concatenation turns into the text \<^verbatim>\<open>undefined\<close>.
\<close>

definition title_of :: "(string \<rightharpoonup> string) \<Rightarrow> string" where
  "title_of params = (case params ''title'' of Some t \<Rightarrow> t | None \<Rightarrow> ''undefined'')"

text \<open>
  The callback subscribed to \<^verbatim>\<open>this.route.params\<close> in the constructor:
  \<^verbatim>\<open>
  (params) => {
    this.filePath.set('./' + params['title']);
    window.scrollTo({ top: 0, behavior: 'smooth' });
  }
  \<close>
\<close>

definition onParams :: "(string \<rightharpoonup> string) \<Rightarrow> MarkdownViewerComponent \<Rightarrow> MarkdownViewerComponent" where
  "onParams params s =
     s\<lparr>filePath := ''./'' @ title_of params,
       effects := effects s @ [ScrollTo 0 ''smooth'']\<rparr>"

text \<open>
  \<^verbatim>\<open>
  onLoad(content: string) {
    console.log(content);
    this.loading.set(false);
  }
  \<close>
\<close>

definition onLoad :: "string \<Rightarrow> MarkdownViewerComponent \<Rightarrow> MarkdownViewerComponent" where
  "onLoad content s =
     s\<lparr>loading := False,
       effects := effects s @ [ConsoleLog content]\<rparr>"

text \<open>
  \<^verbatim>\<open>
  onError(error: any) {
    this.error.set(`Can't find ${this.filePath()}.md`);
  }
  \<close>
  The parameter has type \<^verbatim>\<open>any\<close>: the model takes a value of any type.
\<close>

definition onError :: "'e \<Rightarrow> MarkdownViewerComponent \<Rightarrow> MarkdownViewerComponent" where
  "onError err s = s\<lparr>error := ''Can't find '' @ filePath s @ ''.md''\<rparr>"

subsection \<open>Event sequences\<close>

text \<open>
  The component is driven by three kinds of events: a new value of the route parameters, the
  success callback and the failure callback of the markdown loader. A run folds the handlers
  over a list of events, oldest first.
\<close>

datatype 'e event =
  RouteParams "string \<rightharpoonup> string"
| MarkdownLoad string
| MarkdownError 'e

fun dispatch :: "'e event \<Rightarrow> MarkdownViewerComponent \<Rightarrow> MarkdownViewerComponent" where
  "dispatch (RouteParams params) s = onParams params s"
| "dispatch (MarkdownLoad content) s = onLoad content s"
| "dispatch (MarkdownError err) s = onError err s"

definition run :: "'e event list \<Rightarrow> MarkdownViewerComponent \<Rightarrow> MarkdownViewerComponent" where
  "run evs s = fold dispatch evs s"

subsection \<open>Load states\<close>

text \<open>
  The source has no enumeration of load states; the three states of the specification are
  read off the two signals \<^verbatim>\<open>loading\<close> and \<^verbatim>\<open>error\<close>: the component is loading when
  the loading flag is set, errored when the error message is not empty, and loaded when the
  loading flag is cleared and no error message is recorded. \<open>load_states\<close> lists the states
  that hold.
\<close>

datatype load_state = Loading | Loaded | Errored

definition load_states :: "MarkdownViewerComponent \<Rightarrow> load_state list" where
  "load_states s =
     (if loading s then [Loading] else []) @
     (if \<not> loading s \<and> error s = '''' then [Loaded] else []) @
     (if error s \<noteq> '''' then [Errored] else [])"

section \<open>The application component\<close>

text \<open>
  \<^verbatim>\<open>src/app/app.component.ts\<close>: the interface \<^verbatim>\<open>Topic\<close>, the signal
  \<^verbatim>\<open>topics = signal<Topic[]>([])\<close> and \<^verbatim>\<open>ngOnInit\<close>. The field \<^verbatim>\<open>id\<close> is written
  \<open>id_topic\<close>; a \<^verbatim>\<open>Date\<close> is the number of milliseconds it wraps.
\<close>

type_synonym Date = int

record Topic =
  id_topic :: int
  title :: string
  description :: string
  published :: Date
  link :: string

record AppComponent =
  topics :: "Topic list"

definition initial_app :: AppComponent where
  "initial_app = \<lparr>topics = []\<rparr>"

text \<open>
  \<^verbatim>\<open>
  ngOnInit(): void {
    this.http.get<Topic[]>('./topics.json').subscribe((data: Topic[]) => {
      this.topics.set(data);
    });
  }
  \<close>
  The HTTP client is a parameter: a function from the requested URL to the outcome of the
  request, \<open>Inr\<close> the list the response holds and \<open>Inl\<close> the error of a failed request.
  One request is made, for \<^verbatim>\<open>./topics.json\<close>. The subscription has a handler for the
  value only, so an error reaches no code of the component.
\<close>

definition ngOnInit :: "(string \<Rightarrow> 'e + Topic list) \<Rightarrow> AppComponent \<Rightarrow> AppComponent" where
  "ngOnInit http_get s =
     (case http_get ''./topics.json'' of
        Inr data \<Rightarrow> s\<lparr>topics := data\<rparr>
      | Inl err \<Rightarrow> s)"

section \<open>Properties of the handlers\<close>

lemma onParams_fields:
  "filePath (onParams params s) = ''./'' @ title_of params"
  "loading (onParams params s) = loading s"
  "error (onParams params s) = error s"
  by (simp_all add: onParams_def)

lemma onLoad_fields:
  "filePath (onLoad content s) = filePath s"
  "loading (onLoad content s) = False"
  "error (onLoad content s) = error s"
  by (simp_all add: onLoad_def)

lemma onError_fields:
  "filePath (onError err s) = filePath s"
  "loading (onError err s) = loading s"
  "error (onError err s) = ''Can't find '' @ filePath s @ ''.md''"
  by (simp_all add: onError_def)

lemma title_of_upd: "title_of (params(''title'' \<mapsto> ident)) = ident"
  by (simp add: title_of_def)

text \<open>
  C9. Before any route parameter or callback has arrived, the loading flag is true, the
  error message is the empty string and the file path is the empty string.
\<close>

theorem initial_signals:
  "loading initial \<and> error initial = '''' \<and> filePath initial = ''''"
  by (simp add: initial_def)

lemma onError_message_names_path:
  "\<exists>before after. error (onError err s) = before @ filePath s @ after"
  unfolding onError_fields by blast

lemma load_states_cases:
  "load_states s = [Loading] \<or> load_states s = [Loaded] \<or>
   load_states s = [Errored] \<or> load_states s = [Loading, Errored]"
  by (simp add: load_states_def)

lemma one_load_state_iff:
  "length (load_states s) = 1 \<longleftrightarrow> \<not> (loading s \<and> error s \<noteq> '''')"
  by (simp add: load_states_def)

subsection \<open>What a run preserves\<close>

text \<open>
  No handler writes the empty string to \<^verbatim>\<open>error\<close> and no handler sets \<^verbatim>\<open>loading\<close>:
  an error message, once recorded, is there after every later event, and the loading flag,
  once cleared, stays cleared.
\<close>

lemma dispatch_keeps_errored: "error s \<noteq> '''' \<Longrightarrow> error (dispatch ev s) \<noteq> ''''"
  by (cases ev) (simp_all add: onParams_fields onLoad_fields onError_fields)

lemma dispatch_keeps_not_loading: "\<not> loading s \<Longrightarrow> \<not> loading (dispatch ev s)"
  by (cases ev) (simp_all add: onParams_fields onLoad_fields onError_fields)

lemma run_keeps_errored: "error s \<noteq> '''' \<Longrightarrow> error (run evs s) \<noteq> ''''"
proof (induction evs arbitrary: s)
  case Nil
  then show ?case by (simp add: run_def)
next
  case (Cons ev evs)
  from Cons.prems have "error (dispatch ev s) \<noteq> ''''"
    by (rule dispatch_keeps_errored)
  then have "error (run evs (dispatch ev s)) \<noteq> ''''"
    by (rule Cons.IH)
  then show ?case by (simp add: run_def)
qed

lemma run_keeps_not_loading: "\<not> loading s \<Longrightarrow> \<not> loading (run evs s)"
proof (induction evs arbitrary: s)
  case Nil
  then show ?case by (simp add: run_def)
next
  case (Cons ev evs)
  from Cons.prems have "\<not> loading (dispatch ev s)"
    by (rule dispatch_keeps_not_loading)
  then have "\<not> loading (run evs (dispatch ev s))"
    by (rule Cons.IH)
  then show ?case by (simp add: run_def)
qed

lemma one_load_state_after_load:
  "length (load_states (run evs (onLoad content s))) = 1"
proof -
  have "\<not> loading (run evs (onLoad content s))"
    by (rule run_keeps_not_loading) (simp add: onLoad_fields)
  then show ?thesis unfolding one_load_state_iff by simp
qed

section \<open>The claims about the markdown viewer\<close>

text \<open>
  C1, as amended. The success callback clears the loading flag and leaves the error message
  and the file path as they were: afterwards the component is loaded when no error message
  had been recorded, and errored otherwise.
\<close>

theorem onLoad_clears_loading_only:
  "\<not> loading (onLoad content s) \<and>
   error (onLoad content s) = error s \<and>
   filePath (onLoad content s) = filePath s \<and>
   load_states (onLoad content s) = (if error s = '''' then [Loaded] else [Errored])"
  by (simp add: onLoad_fields load_states_def)

text \<open>
  C1 as stated fails: a document that is missing, then a route change to a document that
  loads. The success callback leaves the message of the earlier failure in place.
\<close>

theorem onLoad_after_failure_counterexample:
  "load_states
     (onLoad ''# Intro''
       (run [RouteParams [''title'' \<mapsto> ''nope''], MarkdownError ''Not Found'',
             RouteParams [''title'' \<mapsto> ''intro'']] initial)) = [Errored] \<and>
   error
     (onLoad ''# Intro''
       (run [RouteParams [''title'' \<mapsto> ''nope''], MarkdownError ''Not Found'',
             RouteParams [''title'' \<mapsto> ''intro'']] initial)) = ''Can't find ./nope.md''"
  by (simp add: run_def onLoad_def onError_def onParams_def title_of_def initial_def
      load_states_def)

text \<open>
  C2. The failure callback records a message that names the file path, and nothing else: it
  does not clear the loading flag, which only \<^verbatim>\<open>onLoad\<close> does. When the first load of a
  component fails, the component is loading and errored at once.
\<close>

theorem onError_while_loading:
  "load_states (onError ''Not Found'' (onParams [''title'' \<mapsto> ''intro''] initial))
     = [Loading, Errored] \<and>
   error (onError ''Not Found'' (onParams [''title'' \<mapsto> ''intro''] initial))
     = ''Can't find ./intro.md''"
  by (simp add: onError_def onParams_def title_of_def initial_def load_states_def)

text \<open>
  C3, as amended. A new value of the route parameters replaces the file path by the prefix
  \<^verbatim>\<open>./\<close> and the title, and leaves the loading flag and the error message as they were:
  the component is in the same load states as before.
\<close>

theorem onParams_replaces_path_only:
  "filePath (onParams params s) = ''./'' @ title_of params \<and>
   loading (onParams params s) = loading s \<and>
   error (onParams params s) = error s \<and>
   load_states (onParams params s) = load_states s"
  by (simp add: onParams_fields load_states_def)

text \<open>
  C3 as stated fails: after a successful load the loading flag is not set again by a route
  change, and after a failed load the error message is not discarded by one.
\<close>

theorem route_change_counterexample:
  "\<not> loading
      (onParams [''title'' \<mapsto> ''hooks'']
        (onLoad ''# Intro'' (onParams [''title'' \<mapsto> ''intro''] initial))) \<and>
   error
      (onParams [''title'' \<mapsto> ''intro'']
        (onError ''Not Found'' (onParams [''title'' \<mapsto> ''nope''] initial)))
     = ''Can't find ./nope.md''"
  by (simp add: onLoad_def onError_def onParams_def title_of_def initial_def)

text \<open>
  C4. A failure callback that arrives while the loading flag is still set leads to a state in
  which two load states hold, loading and errored.
\<close>

theorem loading_and_errored_reachable:
  "load_states
     (run [RouteParams [''title'' \<mapsto> ''nope''], MarkdownError ''Not Found''] initial)
   = [Loading, Errored]"
  by (simp add: run_def onError_def onParams_def title_of_def initial_def load_states_def)

text \<open>
  C5, as amended. For the title \<^verbatim>\<open>intro\<close> the file path held by the component is
  \<^verbatim>\<open>./intro\<close>, the prefix and the title with no suffix; the suffix \<^verbatim>\<open>.md\<close> is added
  where the path is used, as in the message of the failure callback, which names
  \<^verbatim>\<open>./intro.md\<close>.
\<close>

theorem intro_path:
  "filePath (onParams [''title'' \<mapsto> ''intro''] s) = ''./intro'' \<and>
   error (onError err (onParams [''title'' \<mapsto> ''intro''] s)) = ''Can't find ./intro.md''"
  by (simp add: onError_def onParams_def title_of_def)

text \<open>C5 as stated fails: the file path held by the component is not \<^verbatim>\<open>./intro.md\<close>.\<close>

theorem intro_path_counterexample:
  "filePath (onParams [''title'' \<mapsto> ''intro''] initial) \<noteq> ''./intro.md''"
  by (simp add: onParams_def title_of_def)

text \<open>
  C6. The file path after a route change is the prefix \<^verbatim>\<open>./\<close> followed by the title: it
  is the same for any two earlier states of the component and any two parameter objects
  that hold the same title.
\<close>

theorem path_resolution_deterministic:
  "filePath (onParams (p(''title'' \<mapsto> ident)) s)
     = filePath (onParams (q(''title'' \<mapsto> ident)) s') \<and>
   filePath (onParams (p(''title'' \<mapsto> ident)) s) = ''./'' @ ident"
  by (simp add: onParams_fields title_of_upd)

text \<open>
  C10. The failure callback never reads its argument: two error values, of any types, give
  the same component, and the message recorded depends on the file path only.
\<close>

theorem onError_ignores_argument:
  "onError e1 s = onError e2 s \<and>
   error (onError e1 (s\<lparr>filePath := path\<rparr>)) = error (onError e2 (s'\<lparr>filePath := path\<rparr>))"
  by (simp add: onError_def)

section \<open>The claims about the topics list\<close>

text \<open>
  C7. When the request for \<^verbatim>\<open>./topics.json\<close> succeeds with the list \<open>L\<close>, the topics held
  afterwards are \<open>L\<close>, whatever was held before.
\<close>

theorem topics_replaced_wholesale:
  assumes "http_get ''./topics.json'' = Inr L"
  shows "topics (ngOnInit http_get s) = L"
  using assms by (simp add: ngOnInit_def)

text \<open>An empty response, and a response of one entry that replaces two entries held before.\<close>

theorem topics_replaced_wholesale_witness:
  "topics
     (ngOnInit (\<lambda>url. if url = ''./topics.json'' then Inr [] else Inl ''Not Found'')
        initial_app) = [] \<and>
   topics
     (ngOnInit
        (\<lambda>url. if url = ''./topics.json''
           then Inr [\<lparr>id_topic = 1, title = ''Hooks'', description = ''Lifecycle hooks'',
                      published = 1735689600000, link = ''/hooks''\<rparr>]
           else Inl ''Not Found'')
        \<lparr>topics =
           [\<lparr>id_topic = 7, title = ''A'', description = '''', published = 0, link = ''/a''\<rparr>,
            \<lparr>id_topic = 8, title = ''B'', description = '''', published = 0, link = ''/b''\<rparr>]\<rparr>)
     = [\<lparr>id_topic = 1, title = ''Hooks'', description = ''Lifecycle hooks'',
          published = 1735689600000, link = ''/hooks''\<rparr>]"
proof -
  let ?empty = "\<lambda>url. if url = ''./topics.json''
     then Inr [] else (Inl ''Not Found'' :: string + Topic list)"
  let ?t = "\<lparr>id_topic = 1, title = ''Hooks'', description = ''Lifecycle hooks'',
     published = 1735689600000, link = ''/hooks''\<rparr>"
  let ?one = "\<lambda>url. if url = ''./topics.json''
     then Inr [?t] else (Inl ''Not Found'' :: string + Topic list)"
  have "?empty ''./topics.json'' = Inr []" by simp
  then have e: "topics (ngOnInit ?empty initial_app) = []"
    by (rule topics_replaced_wholesale)
  have "?one ''./topics.json'' = Inr [?t]" by simp
  then have "topics (ngOnInit ?one s) = [?t]" for s
    by (rule topics_replaced_wholesale)
  with e show ?thesis by simp
qed

text \<open>
  C8. When the request for \<^verbatim>\<open>./topics.json\<close> fails, the component is left exactly as it
  was; it has no field for an error. Started from the initial component, the topics are still
  the empty list.
\<close>

theorem topics_fetch_failure_unhandled:
  assumes "http_get ''./topics.json'' = Inl err"
  shows "ngOnInit http_get s = s \<and> topics (ngOnInit http_get initial_app) = []"
  using assms by (simp add: ngOnInit_def initial_app_def)

theorem topics_fetch_failure_unhandled_witness:
  "ngOnInit (\<lambda>url. Inl ''Not Found'' :: string + Topic list)
     \<lparr>topics = [\<lparr>id_topic = 7, title = ''A'', description = '''', published = 0, link = ''/a''\<rparr>]\<rparr>
     = \<lparr>topics = [\<lparr>id_topic = 7, title = ''A'', description = '''', published = 0, link = ''/a''\<rparr>]\<rparr> \<and>
   topics (ngOnInit (\<lambda>url. Inl ''Not Found'' :: string + Topic list) initial_app) = []"
proof -
  have "(\<lambda>url. Inl ''Not Found'' :: string + Topic list) ''./topics.json'' = Inl ''Not Found''"
    by simp
  then show ?thesis
    by (rule topics_fetch_failure_unhandled)
qed

end
